theory Spec2Isabelle
  imports Complex_Main "HOL-Library.Sublist"
begin

section \<open>Values\<close>

text \<open>
  Python floats and numpy float64 entries are IEEE doubles.  They are modelled as a real
  number or one of the three special values.  Finite arithmetic is exact: rounding,
  overflow and underflow are not modelled, and the two zeros are identified (a division
  of a nonzero number by zero takes the sign of the numerator).
\<close>

datatype f64 = Fin real | PInf | NInf | NaN

datatype exn =
    ZeroDivisionError | NameError | AttributeError | ValueError | TypeError
  | IndexError | UnboundLocalError | LibraryError string

text \<open>A record written by \<^verbatim>\<open>logging.error("Error occurred: %s", arg)\<close>.\<close>

datatype logrec = ErrorExn exn | ErrorMsg string

type_synonym log = "logrec list"

subsection \<open>IEEE arithmetic\<close>

fun fneg :: "f64 \<Rightarrow> f64" where
  "fneg (Fin a) = Fin (- a)"
| "fneg PInf = NInf"
| "fneg NInf = PInf"
| "fneg NaN = NaN"

fun fadd :: "f64 \<Rightarrow> f64 \<Rightarrow> f64" where
  "fadd (Fin a) (Fin b) = Fin (a + b)"
| "fadd NaN _ = NaN"
| "fadd _ NaN = NaN"
| "fadd PInf NInf = NaN"
| "fadd NInf PInf = NaN"
| "fadd PInf _ = PInf"
| "fadd _ PInf = PInf"
| "fadd NInf _ = NInf"
| "fadd _ NInf = NInf"

definition fsub :: "f64 \<Rightarrow> f64 \<Rightarrow> f64" where
  "fsub a b = fadd a (fneg b)"

fun signed_inf :: "bool \<Rightarrow> f64" where
  "signed_inf True = PInf"
| "signed_inf False = NInf"

fun fmul :: "f64 \<Rightarrow> f64 \<Rightarrow> f64" where
  "fmul (Fin a) (Fin b) = Fin (a * b)"
| "fmul NaN _ = NaN"
| "fmul _ NaN = NaN"
| "fmul PInf (Fin b) = (if b = 0 then NaN else signed_inf (0 < b))"
| "fmul NInf (Fin b) = (if b = 0 then NaN else signed_inf (b < 0))"
| "fmul (Fin a) PInf = (if a = 0 then NaN else signed_inf (0 < a))"
| "fmul (Fin a) NInf = (if a = 0 then NaN else signed_inf (a < 0))"
| "fmul PInf PInf = PInf"
| "fmul PInf NInf = NInf"
| "fmul NInf PInf = NInf"
| "fmul NInf NInf = PInf"

text \<open>Division as numpy does it: a zero divisor gives an infinity or NaN, never an exception.\<close>

fun fdiv :: "f64 \<Rightarrow> f64 \<Rightarrow> f64" where
  "fdiv (Fin a) (Fin b) =
     (if b \<noteq> 0 then Fin (a / b) else if a = 0 then NaN else signed_inf (0 < a))"
| "fdiv NaN _ = NaN"
| "fdiv _ NaN = NaN"
| "fdiv (Fin a) _ = Fin 0"
| "fdiv PInf (Fin b) = signed_inf (0 \<le> b)"
| "fdiv NInf (Fin b) = signed_inf (b < 0)"
| "fdiv _ _ = NaN"

fun np_exp :: "f64 \<Rightarrow> f64" where
  "np_exp (Fin a) = Fin (exp a)"
| "np_exp PInf = PInf"
| "np_exp NInf = Fin 0"
| "np_exp NaN = NaN"

fun np_log :: "f64 \<Rightarrow> f64" where
  "np_log (Fin a) = (if 0 < a then Fin (ln a) else if a = 0 then NInf else NaN)"
| "np_log PInf = PInf"
| "np_log NInf = NaN"
| "np_log NaN = NaN"

definition is_integer :: "real \<Rightarrow> bool" where
  "is_integer e = (e = of_int \<lfloor>e\<rfloor>)"

definition is_odd_integer :: "real \<Rightarrow> bool" where
  "is_odd_integer e = (is_integer e \<and> odd \<lfloor>e\<rfloor>)"

text \<open>
  \<^verbatim>\<open>**\<close> on float64 arrays (C \<^verbatim>\<open>pow\<close>): a negative base with a fractional exponent is NaN,
  a zero base with a negative exponent is infinite.
\<close>

fun np_power :: "f64 \<Rightarrow> f64 \<Rightarrow> f64" where
  "np_power (Fin a) (Fin e) =
     (if is_integer e then (if a = 0 \<and> e < 0 then PInf else Fin (power_int a \<lfloor>e\<rfloor>))
      else if a < 0 then NaN
      else if a = 0 then (if 0 < e then Fin 0 else PInf)
      else Fin (a powr e))"
| "np_power NaN (Fin e) = (if e = 0 then Fin 1 else NaN)"
| "np_power (Fin a) NaN = (if a = 1 then Fin 1 else NaN)"
| "np_power _ NaN = NaN"
| "np_power NaN _ = NaN"
| "np_power (Fin a) PInf =
     (if \<bar>a\<bar> < 1 then Fin 0 else if \<bar>a\<bar> = 1 then Fin 1 else PInf)"
| "np_power (Fin a) NInf =
     (if \<bar>a\<bar> < 1 then PInf else if \<bar>a\<bar> = 1 then Fin 1 else Fin 0)"
| "np_power PInf (Fin e) = (if e = 0 then Fin 1 else if 0 < e then PInf else Fin 0)"
| "np_power NInf (Fin e) =
     (if e = 0 then Fin 1
      else if 0 < e then (if is_odd_integer e then NInf else PInf)
      else Fin 0)"
| "np_power _ PInf = PInf"
| "np_power _ NInf = Fin 0"

text \<open>Comparisons: every comparison with NaN is false, so \<^verbatim>\<open>!=\<close> with NaN is true.\<close>

definition feq :: "f64 \<Rightarrow> f64 \<Rightarrow> bool" where
  "feq a b = (a \<noteq> NaN \<and> b \<noteq> NaN \<and> a = b)"

fun fge :: "f64 \<Rightarrow> f64 \<Rightarrow> bool" where
  "fge NaN _ = False"
| "fge _ NaN = False"
| "fge (Fin a) (Fin b) = (b \<le> a)"
| "fge PInf _ = True"
| "fge _ NInf = True"
| "fge _ _ = False"

definition flt :: "f64 \<Rightarrow> f64 \<Rightarrow> bool" where
  "flt a b = (a \<noteq> NaN \<and> b \<noteq> NaN \<and> \<not> fge a b)"

text \<open>
  \<^verbatim>\<open>/\<close> between two Python scalars raises on a zero divisor.  The scalar parameters
  \<^verbatim>\<open>Di\<close>, \<^verbatim>\<open>yi\<close>, \<^verbatim>\<open>xi\<close>, \<^verbatim>\<open>b\<close> are annotated \<^verbatim>\<open>float\<close> and are modelled as Python floats.
\<close>

definition py_truediv :: "f64 \<Rightarrow> f64 \<Rightarrow> exn + f64" where
  "py_truediv a b = (if feq b (Fin 0) then Inl ZeroDivisionError else Inr (fdiv a b))"

subsection \<open>Strings\<close>

text \<open>\<^verbatim>\<open>str.lower\<close> on the ASCII letters.\<close>

definition lower_char :: "char \<Rightarrow> char" where
  "lower_char c =
     (case map_of (zip ''ABCDEFGHIJKLMNOPQRSTUVWXYZ'' ''abcdefghijklmnopqrstuvwxyz'') c of
        Some l \<Rightarrow> l
      | None \<Rightarrow> c)"

definition lower :: "string \<Rightarrow> string" where
  "lower s = map lower_char s"

section \<open>The Arps model: modes and exponents\<close>

definition get_mode :: "f64 \<Rightarrow> string" where
  "get_mode b =
     (if feq b (Fin 0) then ''Exponential''
      else if feq b (Fin 1) then ''Harmonic''
      else ''Hyperbolic'')"

text \<open>
  \<^verbatim>\<open>get_b\<close> returns a value for the three known names and otherwise logs an error and
  falls off the end of the function, which returns \<^verbatim>\<open>None\<close>.
\<close>

definition get_b :: "string \<Rightarrow> log \<Rightarrow> f64 option \<times> log" where
  "get_b m lg =
     (if lower m \<in> set [''exponential'', ''exp''] then (Some (Fin 0), lg)
      else if lower m \<in> set [''hyperbolic'', ''hyp''] then (Some (Fin (1 / 2)), lg)
      else if lower m \<in> set [''harmonic'', ''har''] then (Some (Fin 1), lg)
      else (None,
        lg @ [ErrorMsg ''Available modes are Exponential, Hyperbolic, and Harmonic.'']))"

text \<open>The property \<^verbatim>\<open>mode\<close>: the first three letters of the lowered mode name.\<close>

definition mode :: "f64 \<Rightarrow> string" where
  "mode b = take 3 (lower (get_mode b))"

section \<open>Forward and cumulative evaluation\<close>

text \<open>\<^verbatim>\<open>x\<close> is a one-dimensional float64 array; every operation on it is elementwise.\<close>

definition frwexp :: "f64 \<Rightarrow> f64 \<Rightarrow> f64 list \<Rightarrow> f64 \<Rightarrow> exn + f64 list" where
  "frwexp Di yi x xi = Inr (map (\<lambda>v. fmul yi (np_exp (fmul (fneg Di) (fsub v xi)))) x)"

definition frwhyp :: "f64 \<Rightarrow> f64 \<Rightarrow> f64 list \<Rightarrow> f64 \<Rightarrow> f64 \<Rightarrow> exn + f64 list" where
  "frwhyp Di yi x xi b =
     (case py_truediv (Fin 1) b of
        Inl e \<Rightarrow> Inl e
      | Inr p \<Rightarrow>
          Inr (map (\<lambda>v. fdiv yi (np_power (fadd (Fin 1) (fmul (fmul b Di) (fsub v xi))) p)) x))"

definition frwhar :: "f64 \<Rightarrow> f64 \<Rightarrow> f64 list \<Rightarrow> f64 \<Rightarrow> exn + f64 list" where
  "frwhar Di yi x xi = Inr (map (\<lambda>v. fdiv yi (fadd (Fin 1) (fmul Di (fsub v xi)))) x)"

definition cumexp :: "f64 \<Rightarrow> f64 \<Rightarrow> f64 list \<Rightarrow> f64 \<Rightarrow> exn + f64 list" where
  "cumexp Di yi x xi =
     (case py_truediv yi Di of
        Inl e \<Rightarrow> Inl e
      | Inr q \<Rightarrow>
          Inr (map (\<lambda>v. fmul q (fsub (Fin 1) (np_exp (fmul (fneg Di) (fsub v xi))))) x))"

definition cumhyp :: "f64 \<Rightarrow> f64 \<Rightarrow> f64 list \<Rightarrow> f64 \<Rightarrow> f64 \<Rightarrow> exn + f64 list" where
  "cumhyp Di yi x xi b =
     (case py_truediv yi Di of
        Inl e \<Rightarrow> Inl e
      | Inr q \<Rightarrow>
         (case py_truediv q (fsub (Fin 1) b) of
            Inl e \<Rightarrow> Inl e
          | Inr q' \<Rightarrow>
             (case py_truediv (Fin 1) b of
                Inl e \<Rightarrow> Inl e
              | Inr p \<Rightarrow>
                  Inr (map (\<lambda>v. fmul q' (fsub (Fin 1)
                        (np_power (fadd (Fin 1) (fmul (fmul b Di) (fsub v xi)))
                                  (fsub (Fin 1) p)))) x))))"

definition cumhar :: "f64 \<Rightarrow> f64 \<Rightarrow> f64 list \<Rightarrow> f64 \<Rightarrow> exn + f64 list" where
  "cumhar Di yi x xi =
     (case py_truediv yi Di of
        Inl e \<Rightarrow> Inl e
      | Inr q \<Rightarrow> Inr (map (\<lambda>v. fmul q (np_log (fadd (Fin 1) (fmul Di (fsub v xi))))) x))"

text \<open>
  \<^verbatim>\<open>getattr(self, name)(*inp)\<close>: the method is found by its name; a name that is no
  attribute is an AttributeError, a fifth positional argument to a method that takes four
  is a TypeError, and \<^verbatim>\<open>frwhyp\<close>, \<^verbatim>\<open>cumhyp\<close> called with four use their default \<^verbatim>\<open>b=0.5\<close>.
\<close>

type_synonym inp = "f64 \<times> f64 \<times> f64 list \<times> f64 \<times> f64 option"

fun getattr_call :: "string \<Rightarrow> inp \<Rightarrow> exn + f64 list" where
  "getattr_call name (Di, yi, x, xi, bo) =
     (if name = ''frwexp'' then
        (case bo of None \<Rightarrow> frwexp Di yi x xi | Some _ \<Rightarrow> Inl TypeError)
      else if name = ''frwhyp'' then
        frwhyp Di yi x xi (case bo of None \<Rightarrow> Fin (1 / 2) | Some b \<Rightarrow> b)
      else if name = ''frwhar'' then
        (case bo of None \<Rightarrow> frwhar Di yi x xi | Some _ \<Rightarrow> Inl TypeError)
      else if name = ''cumexp'' then
        (case bo of None \<Rightarrow> cumexp Di yi x xi | Some _ \<Rightarrow> Inl TypeError)
      else if name = ''cumhyp'' then
        cumhyp Di yi x xi (case bo of None \<Rightarrow> Fin (1 / 2) | Some b \<Rightarrow> b)
      else if name = ''cumhar'' then
        (case bo of None \<Rightarrow> cumhar Di yi x xi | Some _ \<Rightarrow> Inl TypeError)
      else Inl AttributeError)"

definition make_inp :: "f64 \<Rightarrow> f64 \<Rightarrow> f64 \<Rightarrow> f64 list \<Rightarrow> f64 \<Rightarrow> inp" where
  "make_inp b Di yi x xi =
     (if feq b (Fin 0) \<or> feq b (Fin 1) then (Di, yi, x, xi, None) else (Di, yi, x, xi, Some b))"

definition frw :: "f64 \<Rightarrow> f64 \<Rightarrow> f64 \<Rightarrow> f64 list \<Rightarrow> f64 \<Rightarrow> exn + f64 list" where
  "frw b Di yi x xi = getattr_call (''frw'' @ mode b) (make_inp b Di yi x xi)"

text \<open>
  \<^verbatim>\<open>cum\<close> has no logging call: the log it is given is the log it leaves, whatever happens.
\<close>

definition cum :: "f64 \<Rightarrow> f64 \<Rightarrow> f64 \<Rightarrow> f64 list \<Rightarrow> f64 \<Rightarrow> log \<Rightarrow> (exn + f64 list) \<times> log" where
  "cum b Di yi x xi lg = (getattr_call (''cum'' @ mode b) (make_inp b Di yi x xi), lg)"

text \<open>
  The forward curve as the specification writes it, over the real numbers: the value the
  three closed forms have in exact arithmetic.
\<close>

definition closed_form :: "real \<Rightarrow> real \<Rightarrow> real \<Rightarrow> real \<Rightarrow> real \<Rightarrow> real" where
  "closed_form b Di yi xi x =
     (if b = 0 then yi * exp (- Di * (x - xi))
      else if b = 1 then yi / (1 + Di * (x - xi))
      else yi / (1 + b * Di * (x - xi)) powr (1 / b))"

section \<open>Arrays\<close>

text \<open>
  \<^verbatim>\<open>a[mask]\<close> with a boolean array: the mask must be as long as the array, or numpy
  raises IndexError; the entries under a true mask entry are kept, in order.
\<close>

definition bool_index :: "'a list \<Rightarrow> bool list \<Rightarrow> exn + 'a list" where
  "bool_index a m =
     (if length a \<noteq> length m then Inl IndexError
      else Inr (map fst (filter snd (zip a m))))"

text \<open>
  An elementwise operation on two arrays: equal lengths, or one of them of length one
  (which is then used for every entry); anything else is a ValueError.
\<close>

definition broadcast2 :: "(f64 \<Rightarrow> f64 \<Rightarrow> f64) \<Rightarrow> f64 list \<Rightarrow> f64 list \<Rightarrow> exn + f64 list" where
  "broadcast2 f a b =
     (if length a = length b then Inr (map2 f a b)
      else if length a = 1 then Inr (map (f (hd a)) b)
      else if length b = 1 then Inr (map (\<lambda>v. f v (hd b)) a)
      else Inl ValueError)"

text \<open>\<^verbatim>\<open>numpy.nansum\<close>: NaN entries count as zero.  \<^verbatim>\<open>numpy.nanmean\<close>: that sum over the
  number of entries that are not NaN (NaN when there is none).\<close>

definition np_nansum :: "f64 list \<Rightarrow> f64" where
  "np_nansum a = foldl fadd (Fin 0) (filter (\<lambda>v. v \<noteq> NaN) a)"

definition np_nanmean :: "f64 list \<Rightarrow> f64" where
  "np_nanmean a = fdiv (np_nansum a) (Fin (real (length (filter (\<lambda>v. v \<noteq> NaN) a))))"

section \<open>Cleaning and scoring\<close>

definition shift :: "f64 list \<Rightarrow> f64 list \<Rightarrow> f64 option \<Rightarrow> exn + f64 list \<times> f64 list" where
  "shift x y xi =
     (case xi of
        None \<Rightarrow> Inr (x, y)
      | Some c \<Rightarrow>
         (case bool_index x (map (\<lambda>v. fge v c) x) of
            Inl e \<Rightarrow> Inl e
          | Inr x' \<Rightarrow>
             (case bool_index y (map (\<lambda>v. fge v c) x) of
                Inl e \<Rightarrow> Inl e
              | Inr y' \<Rightarrow> Inr (map (\<lambda>v. fsub v c) x', y'))))"

definition nzero :: "f64 list \<Rightarrow> f64 list \<Rightarrow> exn + f64 list \<times> f64 list" where
  "nzero x y =
     (case bool_index x (map (\<lambda>v. v \<noteq> NaN \<and> \<not> feq v (Fin 0)) y) of
        Inl e \<Rightarrow> Inl e
      | Inr x' \<Rightarrow>
         (case bool_index y (map (\<lambda>v. v \<noteq> NaN \<and> \<not> feq v (Fin 0)) y) of
            Inl e \<Rightarrow> Inl e
          | Inr y' \<Rightarrow> Inr (x', y')))"

text \<open>An observation that is neither NaN nor zero.\<close>

definition usable :: "f64 \<times> f64 \<Rightarrow> bool" where
  "usable p = (snd p \<noteq> NaN \<and> snd p \<noteq> Fin 0)"

definition rsquared :: "f64 list \<Rightarrow> f64 list \<Rightarrow> exn + f64" where
  "rsquared ycal yobs =
     (case broadcast2 fsub yobs ycal of
        Inl e \<Rightarrow> Inl e
      | Inr diff \<Rightarrow>
          let ssres = np_nansum (map (\<lambda>v. np_power v (Fin 2)) diff);
              sstot = np_nansum (map (\<lambda>v. np_power (fsub v (np_nanmean yobs)) (Fin 2)) yobs)
          in Inr (fsub (Fin 1) (fdiv ssres sstot)))"

text \<open>
  The score as the specification words it: the entries at which either array is NaN are
  left out of both sums, and the mean is that of the observations that are left in.
\<close>

definition kept_pairs :: "f64 list \<Rightarrow> f64 list \<Rightarrow> (f64 \<times> f64) list" where
  "kept_pairs ycal yobs = filter (\<lambda>(c, obs). c \<noteq> NaN \<and> obs \<noteq> NaN) (zip ycal yobs)"

definition rsquared_spec :: "f64 list \<Rightarrow> f64 list \<Rightarrow> f64" where
  "rsquared_spec ycal yobs =
     (let kept = kept_pairs ycal yobs;
          mean = fdiv (foldl fadd (Fin 0) (map snd kept)) (Fin (real (length kept)));
          ssres = foldl fadd (Fin 0) (map (\<lambda>(c, obs). np_power (fsub obs c) (Fin 2)) kept);
          sstot = foldl fadd (Fin 0) (map (\<lambda>(c, obs). np_power (fsub obs mean) (Fin 2)) kept)
      in fsub (Fin 1) (fdiv ssres sstot))"

text \<open>The real numbers among the entries of an array, and the sums the code forms.\<close>

fun finite_vals :: "f64 list \<Rightarrow> real list" where
  "finite_vals [] = []"
| "finite_vals (Fin r # vs) = r # finite_vals vs"
| "finite_vals (_ # vs) = finite_vals vs"

fun finite_pairs :: "f64 list \<Rightarrow> f64 list \<Rightarrow> (real \<times> real) list" where
  "finite_pairs (Fin c # cs) (Fin obs # os) = (c, obs) # finite_pairs cs os"
| "finite_pairs (_ # cs) (_ # os) = finite_pairs cs os"
| "finite_pairs _ _ = []"

definition ss_res :: "f64 list \<Rightarrow> f64 list \<Rightarrow> real" where
  "ss_res ycal yobs = (\<Sum>(c, obs) \<leftarrow> finite_pairs ycal yobs. (obs - c)\<^sup>2)"

definition ss_tot :: "f64 list \<Rightarrow> real" where
  "ss_tot yobs =
     (let vs = finite_vals yobs; mean = sum_list vs / real (length vs)
      in (\<Sum>obs \<leftarrow> vs. (obs - mean)\<^sup>2))"

definition no_inf :: "f64 \<Rightarrow> bool" where
  "no_inf v = (v \<noteq> PInf \<and> v \<noteq> NInf)"

section \<open>Regression\<close>

text \<open>
  The fields of scipy's \<^verbatim>\<open>LinregressResult\<close>.  \<^verbatim>\<open>scipy.stats.linregress\<close> itself is a
  library function: it is a parameter \<open>lr\<close> of the model, returning its result or the
  exception it raised.
\<close>

record linres =
  slope :: f64
  intercept :: f64
  rvalue :: f64
  pvalue :: f64
  stderr :: f64
  intercept_stderr :: f64

text \<open>
  \<^verbatim>\<open>Arps.regress\<close>: an exception of \<^verbatim>\<open>linregress\<close> is caught and logged, and the function
  then ends without a \<^verbatim>\<open>return\<close>, which gives \<^verbatim>\<open>None\<close>.
\<close>

definition regress ::
  "(f64 list \<Rightarrow> f64 list \<Rightarrow> exn + linres) \<Rightarrow> f64 list \<Rightarrow> f64 list \<Rightarrow> log \<Rightarrow> linres option \<times> log" where
  "regress lr x y lg =
     (case lr x y of
        Inl e \<Rightarrow> (None, lg @ [ErrorExn e])
      | Inr lin \<Rightarrow> (Some lin, lg))"

text \<open>The fit result: the linear part, and the nonlinear part \<open>(Di, yi, R2)\<close>.\<close>

type_synonym fit = "linres option \<times> f64 \<times> f64 \<times> f64"

text \<open>
  A name read in a function body is looked up among the names local to the function and
  then among the global names of the module \<^verbatim>\<open>_arpmod\<close> (its imports, \<^verbatim>\<open>Result\<close>,
  \<^verbatim>\<open>LinregressResult\<close> and \<^verbatim>\<open>Arps\<close>); a name found in neither is a NameError.  The built-in
  names are left out: none of them is looked up here.
\<close>

definition arpmod_globals :: "string list" where
  "arpmod_globals =
     [''logging'', ''numpy'', ''_make_tuple_bunch'', ''linregress'', ''norm'',
      ''Result'', ''LinregressResult'', ''Arps'']"

definition load_name :: "string list \<Rightarrow> string \<Rightarrow> exn + unit" where
  "load_name local_names name =
     (if name \<in> set local_names \<or> name \<in> set arpmod_globals then Inr ()
      else Inl NameError)"

text \<open>
  \<^verbatim>\<open>invexp\<close>, \<^verbatim>\<open>invhyp\<close> and \<^verbatim>\<open>invhar\<close> are static methods whose first statement is
  \<^verbatim>\<open>x,yobs = self.shift(x,yobs,xi)\<close>: the first thing evaluated is the name \<^verbatim>\<open>self\<close>, and
  the local names of a static method are its parameters.  What the body would do after
  that lookup is the parameter \<open>rest\<close>.
\<close>

definition invexp :: "exn + fit \<Rightarrow> f64 list \<Rightarrow> f64 list \<Rightarrow> f64 option \<Rightarrow> exn + fit" where
  "invexp rest x y xi =
     (case load_name [''x'', ''y'', ''xi''] ''self'' of
        Inl e \<Rightarrow> Inl e
      | Inr _ \<Rightarrow> rest)"

definition invhyp :: "exn + fit \<Rightarrow> f64 list \<Rightarrow> f64 list \<Rightarrow> f64 option \<Rightarrow> f64 \<Rightarrow> exn + fit" where
  "invhyp rest x y xi b =
     (case load_name [''x'', ''y'', ''xi'', ''b''] ''self'' of
        Inl e \<Rightarrow> Inl e
      | Inr _ \<Rightarrow> rest)"

definition invhar :: "exn + fit \<Rightarrow> f64 list \<Rightarrow> f64 list \<Rightarrow> f64 option \<Rightarrow> exn + fit" where
  "invhar rest x y xi =
     (case load_name [''x'', ''y'', ''xi''] ''self'' of
        Inl e \<Rightarrow> Inl e
      | Inr _ \<Rightarrow> rest)"

text \<open>\<^verbatim>\<open>inv\<close> dispatches by name as \<^verbatim>\<open>frw\<close> and \<^verbatim>\<open>cum\<close> do.\<close>

definition inv :: "exn + fit \<Rightarrow> f64 \<Rightarrow> f64 list \<Rightarrow> f64 list \<Rightarrow> f64 option \<Rightarrow> exn + fit" where
  "inv rest b x y xi =
     (let bo = (if feq b (Fin 0) \<or> feq b (Fin 1) then None else Some b);
          name = ''inv'' @ mode b
      in if name = ''invexp'' then
           (case bo of None \<Rightarrow> invexp rest x y xi | Some _ \<Rightarrow> Inl TypeError)
         else if name = ''invhyp'' then
           invhyp rest x y xi (case bo of None \<Rightarrow> Fin (1 / 2) | Some b' \<Rightarrow> b')
         else if name = ''invhar'' then
           (case bo of None \<Rightarrow> invhar rest x y xi | Some _ \<Rightarrow> Inl TypeError)
         else Inl AttributeError)"

subsection \<open>The hyperbolic model class\<close>

text \<open>Line 30 of \<^verbatim>\<open>Hyperbolic.regress\<close>: \<^verbatim>\<open>x,yobs = x[yobs!=0],yobs[yobs!=0]\<close>.\<close>

definition regress_filter :: "f64 list \<Rightarrow> f64 list \<Rightarrow> exn + f64 list \<times> f64 list" where
  "regress_filter x yobs =
     (case bool_index x (map (\<lambda>v. \<not> feq v (Fin 0)) yobs) of
        Inl e \<Rightarrow> Inl e
      | Inr x' \<Rightarrow>
         (case bool_index yobs (map (\<lambda>v. \<not> feq v (Fin 0)) yobs) of
            Inl e \<Rightarrow> Inl e
          | Inr y' \<Rightarrow> Inr (x', y')))"

text \<open>
  Line 34 of \<^verbatim>\<open>Hyperbolic.regress\<close>:
  \<^verbatim>\<open>Di,yi = 0,0 if linear is None else linear.slope/linear.intercept/self.xp,linear.intercept**(-1/self.xp)\<close>.
  A conditional expression binds tighter than the commas, so the right-hand side is a
  tuple of three: \<^verbatim>\<open>0\<close>, the conditional, and the power.  Its elements are evaluated from
  the left; the third reads \<^verbatim>\<open>linear.intercept\<close> whether or not \<^verbatim>\<open>linear\<close> is \<^verbatim>\<open>None\<close>.  The
  tuple is then unpacked into two names.  The fields of \<^verbatim>\<open>linear\<close> are float64 scalars;
  \<^verbatim>\<open>-1/self.xp\<close> is a quotient of Python scalars.
\<close>

definition line34_tuple :: "linres option \<Rightarrow> f64 \<Rightarrow> exn + f64 list" where
  "line34_tuple lin xp =
     (let e1 = Fin 0;
          e2 = (case lin of
                  None \<Rightarrow> Fin 0
                | Some l \<Rightarrow> fdiv (fdiv (slope l) (intercept l)) xp)
      in case lin of
           None \<Rightarrow> Inl AttributeError
         | Some l \<Rightarrow>
            (case py_truediv (Fin (- 1)) xp of
               Inl e \<Rightarrow> Inl e
             | Inr p \<Rightarrow> Inr [e1, e2, np_power (intercept l) p]))"

definition unpack2 :: "'a list \<Rightarrow> exn + 'a \<times> 'a" where
  "unpack2 t = (case t of [a, b] \<Rightarrow> Inr (a, b) | _ \<Rightarrow> Inl ValueError)"

definition back_transform :: "linres option \<Rightarrow> f64 \<Rightarrow> exn + f64 \<times> f64" where
  "back_transform lin xp =
     (case line34_tuple lin xp of
        Inl e \<Rightarrow> Inl e
      | Inr t \<Rightarrow> unpack2 t)"

text \<open>
  \<^verbatim>\<open>Hyperbolic.regress\<close>.  The base class \<^verbatim>\<open>GenModel\<close> is not among the sources: its
  \<^verbatim>\<open>xshift\<close>, its \<^verbatim>\<open>regress\<close> (called through \<^verbatim>\<open>super()\<close>) and the \<^verbatim>\<open>rvalue\<close> of a model built from
  \<open>(Di, yi, xp)\<close> are parameters, each free to return or to raise; \<open>xp\<close> is the exponent
  held by the instance.
\<close>

definition Hyperbolic_regress ::
  "(f64 list \<Rightarrow> f64 list \<Rightarrow> f64 option \<Rightarrow> exn + f64 list \<times> f64 list) \<Rightarrow>
   (f64 list \<Rightarrow> f64 list \<Rightarrow> log \<Rightarrow> (exn + linres option) \<times> log) \<Rightarrow>
   (f64 \<Rightarrow> f64 \<Rightarrow> f64 \<Rightarrow> f64 list \<Rightarrow> f64 list \<Rightarrow> exn + f64) \<Rightarrow>
   f64 \<Rightarrow> f64 list \<Rightarrow> f64 list \<Rightarrow> f64 option \<Rightarrow> log \<Rightarrow> (exn + fit) \<times> log" where
  "Hyperbolic_regress xshift super_regress model_rvalue xp x yobs xi lg =
     (case xshift x yobs xi of
        Inl e \<Rightarrow> (Inl e, lg)
      | Inr (x1, y1) \<Rightarrow>
         (case regress_filter x1 y1 of
            Inl e \<Rightarrow> (Inl e, lg)
          | Inr (x2, y2) \<Rightarrow>
             (case super_regress x2 (map (\<lambda>v. np_power (fdiv (Fin 1) v) xp) y2) lg of
                (Inl e, lg') \<Rightarrow> (Inl e, lg')
              | (Inr lin, lg') \<Rightarrow>
                 (case back_transform lin xp of
                    Inl e \<Rightarrow> (Inl e, lg')
                  | Inr (Di, yi) \<Rightarrow>
                     (case model_rvalue Di yi xp x2 y2 of
                        Inl e \<Rightarrow> (Inl e, lg')
                      | Inr R2 \<Rightarrow> (Inr (lin, Di, yi, R2), lg'))))))"

section \<open>Group forecasts\<close>

text \<open>
  A table is its rows, each under an index label.  \<^verbatim>\<open>pandas.concat\<close> puts the rows of the
  second table after those of the first, labels kept; \<^verbatim>\<open>reset_index(drop=True)\<close> numbers
  the rows from zero.
\<close>

type_synonym 'r frame = "(nat \<times> 'r) list"

definition reset_index :: "'r frame \<Rightarrow> 'r frame" where
  "reset_index f = zip [0..<length f] (map snd f)"

text \<open>
  The global names of the module \<^verbatim>\<open>_analysis\<close> are its imports and the class it defines;
  the local names of \<^verbatim>\<open>mrun\<close> are its parameters and the names it assigns.  A name read in
  the body is looked up among the local names and then among the global ones; a name
  found in neither is a NameError.
\<close>

definition analysis_globals :: "string list" where
  "analysis_globals = [''datetime'', ''pandas'', ''Arps'', ''TimeSpan'', ''Analysis'']"

definition mrun_locals :: "string list" where
  "mrun_locals =
     [''self'', ''models'', ''args'', ''kwargs'', ''dates'', ''index'', ''key'', ''model'',
      ''days'', ''curve'', ''frame'']"

definition load_global :: "string list \<Rightarrow> string list \<Rightarrow> string \<Rightarrow> exn + unit" where
  "load_global global_names local_names name =
     (if name \<in> set local_names \<or> name \<in> set global_names then Inr ()
      else Inl NameError)"

text \<open>
  \<^verbatim>\<open>Analysis.mrun\<close>.  \<^verbatim>\<open>TimeSpan\<close> is imported from a module that is not among the sources:
  the outcome of \<^verbatim>\<open>TimeSpan.get(*args,**kwargs)\<close> is the parameter \<open>dates\<close>, and
  \<^verbatim>\<open>dates.days(model.date0)\<close> is the parameter \<open>days\<close>; each may raise.  The next statement,
  \<^verbatim>\<open>curve = Curve(model).run(days)\<close>, first reads the name \<^verbatim>\<open>Curve\<close>.  What that statement and
  the next one would do once the name is found, up to \<^verbatim>\<open>curve.frame\<close>, is the parameter
  \<open>curve_frame\<close>.  The dictionary is the list of its items in insertion order.  The local
  variable \<^verbatim>\<open>frame\<close> is \<open>None\<close> while it is unbound.
\<close>

fun mrun_loop ::
  "('m \<Rightarrow> exn + 'y) \<Rightarrow> ('m \<Rightarrow> 'y \<Rightarrow> exn + 'r frame) \<Rightarrow> nat \<Rightarrow> ('k \<times> 'm) list \<Rightarrow>
   'r frame option \<Rightarrow> exn + 'r frame option" where
  "mrun_loop days curve_frame index [] frame = Inr frame"
| "mrun_loop days curve_frame index ((key, model) # rest) frame =
     (case days model of
        Inl e \<Rightarrow> Inl e
      | Inr dy \<Rightarrow>
         (case load_global analysis_globals mrun_locals ''Curve'' of
            Inl e \<Rightarrow> Inl e
          | Inr _ \<Rightarrow>
             (case curve_frame model dy of
                Inl e \<Rightarrow> Inl e
              | Inr cf \<Rightarrow>
                  if index = 1 then mrun_loop days curve_frame (index + 1) rest (Some cf)
                  else (case frame of
                          None \<Rightarrow> Inl UnboundLocalError
                        | Some f \<Rightarrow>
                            mrun_loop days curve_frame (index + 1) rest (Some (f @ cf))))))"

definition mrun ::
  "exn + 'd \<Rightarrow> ('d \<Rightarrow> 'm \<Rightarrow> exn + 'y) \<Rightarrow> ('d \<Rightarrow> 'm \<Rightarrow> 'y \<Rightarrow> exn + 'r frame) \<Rightarrow>
   ('k \<times> 'm) list \<Rightarrow> exn + 'r frame" where
  "mrun dates days curve_frame models =
     (case dates of
        Inl e \<Rightarrow> Inl e
      | Inr d \<Rightarrow>
         (case mrun_loop (days d) (curve_frame d) 1 models None of
            Inl e \<Rightarrow> Inl e
          | Inr None \<Rightarrow> Inl UnboundLocalError
          | Inr (Some frame) \<Rightarrow> Inr (reset_index frame)))"

section \<open>Basic facts\<close>

lemma mode_exp: "mode (Fin 0) = ''exp''"
  by (simp add: mode_def get_mode_def feq_def lower_def lower_char_def)

lemma mode_har: "mode (Fin 1) = ''har''"
  by (simp add: mode_def get_mode_def feq_def lower_def lower_char_def)

lemma mode_hyp: "b \<noteq> Fin 0 \<Longrightarrow> b \<noteq> Fin 1 \<Longrightarrow> mode b = ''hyp''"
  by (simp add: mode_def get_mode_def feq_def lower_def lower_char_def)

lemma fsub_Fin [simp]: "fsub (Fin a) (Fin b) = Fin (a - b)"
  by (simp add: fsub_def)

lemma py_truediv_Fin: "b \<noteq> 0 \<Longrightarrow> py_truediv (Fin a) (Fin b) = Inr (Fin (a / b))"
  by (simp add: py_truediv_def feq_def)

lemma py_truediv_zero [simp]: "py_truediv a (Fin 0) = Inl ZeroDivisionError"
  by (simp add: py_truediv_def feq_def)

lemma np_power_pos: "0 < a \<Longrightarrow> np_power (Fin a) (Fin e) = Fin (a powr e)"
proof -
  assume a: "0 < a"
  have "is_integer e \<Longrightarrow> power_int a \<lfloor>e\<rfloor> = a powr e"
  proof -
    assume "is_integer e"
    then have e: "e = of_int \<lfloor>e\<rfloor>" by (simp add: is_integer_def)
    have "a powr (of_int \<lfloor>e\<rfloor>) = power_int a \<lfloor>e\<rfloor>"
      using a by (intro powr_real_of_int') auto
    with e show ?thesis by simp
  qed
  with a show ?thesis by auto
qed

lemma frw_0: "frw (Fin 0) Di yi x xi = frwexp Di yi x xi"
  by (simp add: frw_def mode_exp make_inp_def feq_def)

lemma frw_1: "frw (Fin 1) Di yi x xi = frwhar Di yi x xi"
  by (simp add: frw_def mode_har make_inp_def feq_def)

lemma frw_hyp: "b \<noteq> Fin 0 \<Longrightarrow> b \<noteq> Fin 1 \<Longrightarrow> frw b Di yi x xi = frwhyp Di yi x xi b"
  by (simp add: frw_def mode_hyp make_inp_def feq_def)

lemma cum_0: "cum (Fin 0) Di yi x xi lg = (cumexp Di yi x xi, lg)"
  by (simp add: cum_def mode_exp make_inp_def feq_def)

lemma cum_1: "cum (Fin 1) Di yi x xi lg = (cumhar Di yi x xi, lg)"
  by (simp add: cum_def mode_har make_inp_def feq_def)

lemma cum_hyp: "b \<noteq> Fin 0 \<Longrightarrow> b \<noteq> Fin 1 \<Longrightarrow> cum b Di yi x xi lg = (cumhyp Di yi x xi b, lg)"
  by (simp add: cum_def mode_hyp make_inp_def feq_def)

lemma frwexp_fin:
  "frwexp (Fin d) (Fin y) (map Fin xs) (Fin xi) = Inr (map (\<lambda>v. Fin (y * exp (- d * (v - xi)))) xs)"
  by (simp add: frwexp_def comp_def)

lemma frwhar_fin:
  "frwhar (Fin d) (Fin y) (map Fin xs) (Fin xi) =
     Inr (map (\<lambda>v. fdiv (Fin y) (Fin (1 + d * (v - xi)))) xs)"
  by (simp add: frwhar_def comp_def)

lemma frwhyp_fin:
  "b \<noteq> 0 \<Longrightarrow> frwhyp (Fin d) (Fin y) (map Fin xs) (Fin xi) (Fin b) =
     Inr (map (\<lambda>v. fdiv (Fin y) (np_power (Fin (1 + b * d * (v - xi))) (Fin (1 / b)))) xs)"
  by (simp add: frwhyp_def py_truediv_Fin comp_def)

lemma cumexp_fin:
  "d \<noteq> 0 \<Longrightarrow> cumexp (Fin d) (Fin y) (map Fin xs) (Fin xi) =
     Inr (map (\<lambda>v. Fin (y / d * (1 - exp (- d * (v - xi))))) xs)"
  by (simp add: cumexp_def py_truediv_Fin comp_def)

lemma cumhar_fin:
  "d \<noteq> 0 \<Longrightarrow> cumhar (Fin d) (Fin y) (map Fin xs) (Fin xi) =
     Inr (map (\<lambda>v. fmul (Fin (y / d)) (np_log (Fin (1 + d * (v - xi))))) xs)"
  by (simp add: cumhar_def py_truediv_Fin comp_def)

lemma cumhyp_fin:
  "d \<noteq> 0 \<Longrightarrow> b \<noteq> 0 \<Longrightarrow> b \<noteq> 1 \<Longrightarrow>
   cumhyp (Fin d) (Fin y) (map Fin xs) (Fin xi) (Fin b) =
     Inr (map (\<lambda>v. fmul (Fin (y / d / (1 - b)))
            (fsub (Fin 1) (np_power (Fin (1 + b * d * (v - xi))) (Fin (1 - 1 / b))))) xs)"
  by (simp add: cumhyp_def py_truediv_Fin comp_def del: np_power.simps)

lemma map_Fin_cong:
  "list_all P xs \<Longrightarrow> (\<And>v. P v \<Longrightarrow> f v = g v) \<Longrightarrow> map f xs = map g xs"
  by (induction xs) auto

subsection \<open>Sums and means\<close>

lemma np_power_two [simp]: "np_power (Fin r) (Fin 2) = Fin (r\<^sup>2)"
proof -
  have "\<lfloor>2::real\<rfloor> = 2" by simp
  then show ?thesis by (simp add: is_integer_def)
qed

lemma np_power_two_NaN [simp]: "np_power NaN (Fin 2) = NaN"
  by simp

lemma foldl_fadd_finite:
  "list_all no_inf a \<Longrightarrow>
   foldl fadd (Fin s) (filter (\<lambda>v. v \<noteq> NaN) a) = Fin (s + sum_list (finite_vals a))"
proof (induction a arbitrary: s)
  case Nil
  then show ?case by simp
next
  case (Cons v a)
  then show ?case by (cases v) (simp_all add: no_inf_def add.assoc)
qed

lemma np_nansum_finite:
  "list_all no_inf a \<Longrightarrow> np_nansum a = Fin (sum_list (finite_vals a))"
  using foldl_fadd_finite [of a 0] by (simp add: np_nansum_def)

lemma length_not_NaN:
  "list_all no_inf a \<Longrightarrow> length (filter (\<lambda>v. v \<noteq> NaN) a) = length (finite_vals a)"
proof (induction a)
  case Nil
  then show ?case by simp
next
  case (Cons v a)
  then show ?case by (cases v) (simp_all add: no_inf_def)
qed

lemma np_nanmean_finite:
  "list_all no_inf a \<Longrightarrow>
   np_nanmean a =
     (if finite_vals a = [] then NaN
      else Fin (sum_list (finite_vals a) / real (length (finite_vals a))))"
  by (simp add: np_nanmean_def np_nansum_finite length_not_NaN)

lemma squares_of_differences:
  "length ycal = length yobs \<Longrightarrow> list_all no_inf ycal \<Longrightarrow> list_all no_inf yobs \<Longrightarrow>
   list_all no_inf (map (\<lambda>v. np_power v (Fin 2)) (map2 fsub yobs ycal))
   \<and> finite_vals (map (\<lambda>v. np_power v (Fin 2)) (map2 fsub yobs ycal))
       = map (\<lambda>(c, obs). (obs - c)\<^sup>2) (finite_pairs ycal yobs)"
proof (induction ycal yobs rule: list_induct2)
  case Nil
  then show ?case by simp
next
  case (Cons c cs obs os)
  then show ?case
    by (cases c; cases obs) (simp_all add: no_inf_def fsub_def del: np_power.simps)
qed

lemma squares_about_mean:
  "list_all no_inf yobs \<Longrightarrow>
   list_all no_inf (map (\<lambda>v. np_power (fsub v (Fin m)) (Fin 2)) yobs)
   \<and> finite_vals (map (\<lambda>v. np_power (fsub v (Fin m)) (Fin 2)) yobs)
       = map (\<lambda>obs. (obs - m)\<^sup>2) (finite_vals yobs)"
proof (induction yobs)
  case Nil
  then show ?case by simp
next
  case (Cons v vs)
  then show ?case
    by (cases v) (simp_all add: no_inf_def fsub_def del: np_power.simps)
qed

lemma squares_about_NaN:
  "list_all no_inf (map (\<lambda>v. np_power (fsub v NaN) (Fin 2)) yobs)
   \<and> finite_vals (map (\<lambda>v. np_power (fsub v NaN) (Fin 2)) yobs) = []"
proof (induction yobs)
  case Nil
  then show ?case by simp
next
  case (Cons v vs)
  then show ?case
    by (cases v) (simp_all add: no_inf_def fsub_def del: np_power.simps)
qed

lemma sstot_finite:
  "list_all no_inf yobs \<Longrightarrow>
   np_nansum (map (\<lambda>v. np_power (fsub v (np_nanmean yobs)) (Fin 2)) yobs) = Fin (ss_tot yobs)"
proof (cases "finite_vals yobs = []")
  case True
  assume "list_all no_inf yobs"
  then have "np_nanmean yobs = NaN" using True by (simp add: np_nanmean_finite)
  then show ?thesis
    using squares_about_NaN [of yobs] True
    by (simp add: np_nansum_finite ss_tot_def del: np_power.simps)
next
  case False
  assume ni: "list_all no_inf yobs"
  let ?m = "sum_list (finite_vals yobs) / real (length (finite_vals yobs))"
  have "np_nanmean yobs = Fin ?m" using ni False by (simp add: np_nanmean_finite)
  then show ?thesis
    using squares_about_mean [OF ni, of ?m]
    by (simp add: np_nansum_finite ss_tot_def Let_def del: np_power.simps)
qed

subsection \<open>Masks\<close>

lemma bool_index_eq:
  "length a = length y \<Longrightarrow> bool_index a (map P y) = Inr (map fst (filter (\<lambda>(u, v). P v) (zip a y)))"
proof -
  assume len: "length a = length y"
  then have "map fst (filter snd (zip a (map P y))) = map fst (filter (\<lambda>(u, v). P v) (zip a y))"
    by (induction a y rule: list_induct2) auto
  with len show ?thesis by (simp add: bool_index_def)
qed

lemma bool_index_self:
  "bool_index y (map P y) = Inr (filter P y)"
proof -
  have "map fst (filter snd (zip y (map P y))) = filter P y"
    by (induction y) auto
  then show ?thesis by (simp add: bool_index_def)
qed

lemma zip_filtered:
  "length x = length y \<Longrightarrow>
   zip (map fst (filter (\<lambda>(u, v). P v) (zip x y))) (filter P y) = filter (\<lambda>(u, v). P v) (zip x y)"
  by (induction x y rule: list_induct2) auto

lemma length_filtered:
  "length x = length y \<Longrightarrow>
   length (map fst (filter (\<lambda>(u, v). P v) (zip x y))) = length (filter P y)"
  by (induction x y rule: list_induct2) auto

lemma filter_usable_nonzero:
  "filter usable (filter (\<lambda>(u, v). \<not> feq v (Fin 0)) ps) = filter usable ps"
  by (induction ps) (auto simp: usable_def feq_def)

subsection \<open>Fitting\<close>

lemma back_transform_raises: "back_transform lin xp \<noteq> Inr r"
  by (auto simp: back_transform_def line34_tuple_def unpack2_def Let_def
      split: option.splits sum.splits)

lemma back_transform_None: "back_transform None xp = Inl AttributeError"
  by (simp add: back_transform_def line34_tuple_def)

lemma back_transform_Some:
  "xp \<noteq> Fin 0 \<Longrightarrow> back_transform (Some l) xp = Inl ValueError"
  by (auto simp: back_transform_def line34_tuple_def unpack2_def py_truediv_def feq_def)

lemma inv_static_raises:
  "invexp rest x y xi = Inl NameError"
  "invhyp rest x y xi b = Inl NameError"
  "invhar rest x y xi = Inl NameError"
  by (simp_all add: invexp_def invhyp_def invhar_def load_name_def arpmod_globals_def)

lemma inv_raises: "inv rest b x y xi = Inl NameError"
proof (cases "b = Fin 0 \<or> b = Fin 1")
  case True
  then show ?thesis
    by (auto simp: inv_def mode_exp mode_har feq_def inv_static_raises)
next
  case False
  then show ?thesis
    by (simp add: inv_def mode_hyp feq_def inv_static_raises)
qed

subsection \<open>The forecast loop\<close>

lemma Curve_unbound: "load_global analysis_globals mrun_locals ''Curve'' = Inl NameError"
  by (simp add: load_global_def analysis_globals_def mrun_locals_def)

lemma mrun_loop_first_item:
  "mrun_loop days curve_frame index ((key, model) # rest) frame =
     (case days model of Inl e \<Rightarrow> Inl e | Inr dy \<Rightarrow> Inl NameError)"
  by (simp add: Curve_unbound split: sum.splits)

section \<open>Modes\<close>

text \<open>
  Claim C7.  The lookups round-trip.  From the exponent: \<^verbatim>\<open>get_b(get_mode(0.5))\<close> is 0.5,
  \<^verbatim>\<open>get_b(get_mode(0))\<close> is 0 and \<^verbatim>\<open>get_b(get_mode(1))\<close> is 1, and for any other \<^verbatim>\<open>b\<close> the
  exponent that comes back is the representative 0.5; nothing is logged.  From the name:
  \<^verbatim>\<open>get_mode(get_b(name))\<close> is the name again for each of the three mode names; the short
  names give the same exponents, and a name that is none of them gives \<^verbatim>\<open>None\<close> and a log
  entry.
  \<^verbatim>\<open>get_mode(0)\<close> is Exponential and \<^verbatim>\<open>get_mode(1)\<close> is Harmonic.  \<^verbatim>\<open>get_mode\<close> decides by
  equality with 0 and with 1 alone: it answers Exponential exactly at 0, Harmonic exactly
  at 1, and Hyperbolic at every other value, so at every value strictly between 0 and 1.
\<close>

theorem get_mode_get_b_roundtrip:
  "get_b (get_mode (Fin (1 / 2))) lg = (Some (Fin (1 / 2)), lg)
   \<and> get_b (get_mode (Fin 0)) lg = (Some (Fin 0), lg)
   \<and> get_b (get_mode (Fin 1)) lg = (Some (Fin 1), lg)
   \<and> get_b (get_mode b) lg =
       (Some (if b = Fin 0 then Fin 0 else if b = Fin 1 then Fin 1 else Fin (1 / 2)), lg)
   \<and> get_b ''Exponential'' lg = (Some (Fin 0), lg)
   \<and> get_b ''Hyperbolic'' lg = (Some (Fin (1 / 2)), lg)
   \<and> get_b ''Harmonic'' lg = (Some (Fin 1), lg)
   \<and> get_b ''exp'' lg = (Some (Fin 0), lg)
   \<and> get_b ''hyp'' lg = (Some (Fin (1 / 2)), lg)
   \<and> get_b ''har'' lg = (Some (Fin 1), lg)
   \<and> get_b ''linear'' lg =
       (None, lg @ [ErrorMsg ''Available modes are Exponential, Hyperbolic, and Harmonic.''])
   \<and> get_mode (the (fst (get_b ''Exponential'' lg))) = ''Exponential''
   \<and> get_mode (the (fst (get_b ''Hyperbolic'' lg))) = ''Hyperbolic''
   \<and> get_mode (the (fst (get_b ''Harmonic'' lg))) = ''Harmonic''
   \<and> get_mode (Fin 0) = ''Exponential''
   \<and> get_mode (Fin 1) = ''Harmonic''
   \<and> (get_mode b = ''Exponential'') = (b = Fin 0)
   \<and> (get_mode b = ''Harmonic'') = (b = Fin 1)
   \<and> (get_mode b = ''Hyperbolic'') = (b \<noteq> Fin 0 \<and> b \<noteq> Fin 1)
   \<and> (0 < r \<and> r < 1 \<longrightarrow> get_mode (Fin r) = ''Hyperbolic'')"
  by (simp add: get_b_def get_mode_def feq_def lower_def lower_char_def)

theorem get_mode_get_b_roundtrip_witness:
  "(0::real) < 1 / 4 \<and> (1 / 4 :: real) < 1 \<and> get_mode (Fin (1 / 4)) = ''Hyperbolic''
   \<and> get_b (get_mode (Fin (1 / 4))) [] = (Some (Fin (1 / 2)), [])
   \<and> get_b (get_mode (Fin (1 / 2))) [] = (Some (Fin (1 / 2)), [])
   \<and> get_b (get_mode (Fin 0)) [] = (Some (Fin 0), [])
   \<and> get_b (get_mode (Fin 1)) [] = (Some (Fin 1), [])"
proof -
  note inst = get_mode_get_b_roundtrip [of "[]" "Fin (1 / 4)" "1 / 4"]
  have r: "(0::real) < 1 / 4" "(1 / 4 :: real) < 1" by simp_all
  have b: "(if Fin (1 / 4) = Fin 0 then Fin 0 else if Fin (1 / 4) = Fin 1 then Fin 1
            else Fin (1 / 2)) = Fin (1 / 2)"
    by simp
  from inst r show ?thesis unfolding b by blast
qed

section \<open>Forward evaluation\<close>

text \<open>
  Claim C1.  With finite parameters and a finite array, \<^verbatim>\<open>frw\<close> with \<^verbatim>\<open>b = 0\<close> is the
  exponential form \<open>yi * exp (- Di * (x - xi))\<close> at every entry; with \<open>0 < b < 1\<close> it is
  \<open>yi / (1 + b * Di * (x - xi)) ^ (1 / b)\<close>, the power and the quotient being those of
  float64 arrays, and the real number \<open>yi / (1 + b * Di * (x - xi)) powr (1 / b)\<close> wherever
  the base is positive; with \<^verbatim>\<open>b = 1\<close> it is \<open>yi / (1 + Di * (x - xi))\<close>, the real quotient
  wherever the denominator is not zero.  The cases \<^verbatim>\<open>b = 0\<close> and \<^verbatim>\<open>b = 1\<close> go to \<^verbatim>\<open>frwexp\<close> and
  \<^verbatim>\<open>frwhar\<close>, not through \<^verbatim>\<open>frwhyp\<close>.
\<close>

theorem frw_closed_forms:
  "frw (Fin 0) Di yi x x0 = frwexp Di yi x x0
   \<and> frw (Fin 1) Di yi x x0 = frwhar Di yi x x0
   \<and> frw (Fin 0) (Fin d) (Fin y) (map Fin xs) (Fin xi) =
       Inr (map (\<lambda>v. Fin (y * exp (- d * (v - xi)))) xs)
   \<and> (0 < b \<and> b < 1 \<longrightarrow>
       frw (Fin b) (Fin d) (Fin y) (map Fin xs) (Fin xi) =
         Inr (map (\<lambda>v. fdiv (Fin y) (np_power (Fin (1 + b * d * (v - xi))) (Fin (1 / b)))) xs))
   \<and> (0 < b \<and> b < 1 \<and> list_all (\<lambda>v. 0 < 1 + b * d * (v - xi)) xs \<longrightarrow>
       frw (Fin b) (Fin d) (Fin y) (map Fin xs) (Fin xi) =
         Inr (map (\<lambda>v. Fin (y / (1 + b * d * (v - xi)) powr (1 / b))) xs))
   \<and> frw (Fin 1) (Fin d) (Fin y) (map Fin xs) (Fin xi) =
       Inr (map (\<lambda>v. fdiv (Fin y) (Fin (1 + d * (v - xi)))) xs)
   \<and> (list_all (\<lambda>v. 1 + d * (v - xi) \<noteq> 0) xs \<longrightarrow>
       frw (Fin 1) (Fin d) (Fin y) (map Fin xs) (Fin xi) =
         Inr (map (\<lambda>v. Fin (y / (1 + d * (v - xi)))) xs))"
proof -
  have hyp: "frw (Fin b) (Fin d) (Fin y) (map Fin xs) (Fin xi) =
         Inr (map (\<lambda>v. fdiv (Fin y) (np_power (Fin (1 + b * d * (v - xi))) (Fin (1 / b)))) xs)"
    if "0 < b" "b < 1"
    using that by (simp add: frw_hyp frwhyp_fin)
  have hyp_real: "map (\<lambda>v. fdiv (Fin y) (np_power (Fin (1 + b * d * (v - xi))) (Fin (1 / b)))) xs
       = map (\<lambda>v. Fin (y / (1 + b * d * (v - xi)) powr (1 / b))) xs"
    if "list_all (\<lambda>v. 0 < 1 + b * d * (v - xi)) xs"
    using that by (rule map_Fin_cong) (simp only: np_power_pos, simp)
  have har_real: "map (\<lambda>v. fdiv (Fin y) (Fin (1 + d * (v - xi)))) xs
       = map (\<lambda>v. Fin (y / (1 + d * (v - xi)))) xs"
    if "list_all (\<lambda>v. 1 + d * (v - xi) \<noteq> 0) xs"
    using that by (rule map_Fin_cong) simp
  show ?thesis
    using hyp hyp_real har_real by (simp add: frw_0 frw_1 frwexp_fin frwhar_fin)
qed

theorem frw_closed_forms_witness:
  "(0::real) < 1 / 2 \<and> (1 / 2 :: real) < 1
   \<and> list_all (\<lambda>v. 0 < 1 + 1 / 2 * 1 * (v - 0)) [0, 2 :: real]
   \<and> frw (Fin (1 / 2)) (Fin 1) (Fin 1) (map Fin [0, 2]) (Fin 0) =
       Inr (map (\<lambda>v. Fin (1 / (1 + 1 / 2 * 1 * (v - 0)) powr (1 / (1 / 2)))) [0, 2])
   \<and> list_all (\<lambda>v. 1 + 1 * (v - 0) \<noteq> 0) [0, 2 :: real]
   \<and> frw (Fin 1) (Fin 1) (Fin 1) (map Fin [0, 2]) (Fin 0) =
       Inr (map (\<lambda>v. Fin (1 / (1 + 1 * (v - 0)))) [0, 2])"
proof -
  note inst = frw_closed_forms [where b = "1 / 2" and d = 1 and y = 1 and xs = "[0, 2]"
      and xi = 0 and Di = "Fin 1" and yi = "Fin 1" and x = "[]" and ?x0.0 = "Fin 0"]
  have b: "(0::real) < 1 / 2" "(1 / 2 :: real) < 1" by simp_all
  have pos: "list_all (\<lambda>v. 0 < 1 + 1 / 2 * 1 * (v - 0)) [0, 2 :: real]" by simp
  have nz: "list_all (\<lambda>v. 1 + 1 * (v - 0) \<noteq> 0) [0, 2 :: real]" by simp
  from inst b pos nz show ?thesis by blast
qed

text \<open>
  The forward curve past its pole.  With \<^verbatim>\<open>Di = 1\<close>, \<^verbatim>\<open>yi = 1\<close>, \<^verbatim>\<open>xi = 0\<close> the harmonic curve
  is \<open>- 1\<close> at \<open>x = - 2\<close> and \<open>1\<close> at \<open>x = 0\<close>, and the hyperbolic curve with
  \<^verbatim>\<open>b = 0.5\<close> is \<open>1 / 4\<close> at \<open>x = - 6\<close> and \<open>1\<close> at \<open>x = 0\<close>: the value at the larger \<open>x\<close>
  is not below the value at the smaller one.
\<close>

theorem frw_not_decreasing_past_pole:
  "frw (Fin 1) (Fin 1) (Fin 1) [Fin (- 2), Fin 0] (Fin 0) = Inr [Fin (- 1), Fin 1]
   \<and> frw (Fin (1 / 2)) (Fin 1) (Fin 1) [Fin (- 6), Fin 0] (Fin 0) = Inr [Fin (1 / 4), Fin 1]
   \<and> \<not> flt (Fin 1) (Fin (- 1)) \<and> \<not> flt (Fin 1) (Fin (1 / 4))"
  by (simp add: frw_1 frw_hyp frwhar_def frwhyp_def py_truediv_Fin flt_def is_integer_def)

text \<open>
  Claim C8, amended.  The statement is about the closed form in exact real arithmetic,
  which is the arithmetic of this model; float64 rounds these values, and two rounded
  values can coincide.  For \<open>Di > 0\<close>, \<open>yi > 0\<close> and \<open>b\<close> in \<open>[0, 1]\<close>, and for \<open>x1 < x2\<close> with
  \<open>1 + b * Di * (x1 - xi) > 0\<close>, what \<^verbatim>\<open>frw\<close> evaluates at \<open>x1\<close> and \<open>x2\<close> is the closed form of
  the specification, and the exact value of that closed form at \<open>x2\<close> is strictly below
  its value at \<open>x1\<close>.  For \<^verbatim>\<open>b = 0\<close> the condition holds at every real \<open>x\<close>; for \<open>b > 0\<close> it
  holds at every \<open>x > xi - 1 / (b * Di)\<close>, which includes values below \<open>xi\<close>.  Nothing is
  clamped.
\<close>

theorem frw_strictly_decreasing:
  "0 < d \<and> 0 < y \<and> 0 \<le> b \<and> b \<le> 1 \<and> x1 < x2 \<and> 0 < 1 + b * d * (x1 - xi) \<longrightarrow>
     frw (Fin b) (Fin d) (Fin y) [Fin x1, Fin x2] (Fin xi) =
       Inr [Fin (closed_form b d y xi x1), Fin (closed_form b d y xi x2)]
     \<and> closed_form b d y xi x2 < closed_form b d y xi x1"
proof
  assume a: "0 < d \<and> 0 < y \<and> 0 \<le> b \<and> b \<le> 1 \<and> x1 < x2 \<and> 0 < 1 + b * d * (x1 - xi)"
  then have d: "0 < d" and y: "0 < y" and x: "x1 < x2" and p1: "0 < 1 + b * d * (x1 - xi)"
    and b0: "0 \<le> b" and b1: "b \<le> 1"
    by simp_all
  have dx: "d * (x1 - xi) < d * (x2 - xi)" using d x by simp
  consider "b = 0" | "b = 1" | "0 < b" "b < 1" using b0 b1 by linarith
  then show "frw (Fin b) (Fin d) (Fin y) [Fin x1, Fin x2] (Fin xi) =
       Inr [Fin (closed_form b d y xi x1), Fin (closed_form b d y xi x2)]
     \<and> closed_form b d y xi x2 < closed_form b d y xi x1"
  proof cases
    case 1
    have "y * exp (- d * (x2 - xi)) < y * exp (- d * (x1 - xi))"
      using y dx by simp
    then show ?thesis
      using 1 by (simp add: frw_0 frwexp_def closed_form_def)
  next
    case 2
    have pos: "0 < 1 + d * (x1 - xi)" using p1 2 by simp
    then have pos2: "0 < 1 + d * (x2 - xi)" using dx by linarith
    have "y / (1 + d * (x2 - xi)) < y / (1 + d * (x1 - xi))"
      using y pos pos2 dx by (simp add: frac_less2)
    then show ?thesis
      using 2 pos pos2 by (simp add: frw_1 frwhar_def closed_form_def)
  next
    case 3
    have lt: "1 + b * d * (x1 - xi) < 1 + b * d * (x2 - xi)"
      using 3 dx by (simp add: mult.assoc)
    then have p2: "0 < 1 + b * d * (x2 - xi)" using p1 by linarith
    have pw: "(1 + b * d * (x1 - xi)) powr (1 / b) < (1 + b * d * (x2 - xi)) powr (1 / b)"
      using 3 p1 lt by (intro powr_less_mono2) auto
    have pw1: "0 < (1 + b * d * (x1 - xi)) powr (1 / b)" using p1 by simp
    have less: "y / (1 + b * d * (x2 - xi)) powr (1 / b) < y / (1 + b * d * (x1 - xi)) powr (1 / b)"
      using y pw pw1 by (simp add: frac_less2)
    have cf: "closed_form b d y xi v = y / (1 + b * d * (v - xi)) powr (1 / b)" for v
      using 3 by (simp add: closed_form_def)
    have "frw (Fin b) (Fin d) (Fin y) [Fin x1, Fin x2] (Fin xi) =
        Inr [Fin (y / (1 + b * d * (x1 - xi)) powr (1 / b)),
             Fin (y / (1 + b * d * (x2 - xi)) powr (1 / b))]"
      using 3 p1 p2 frwhyp_fin [of b d y "[x1, x2]" xi]
      by (simp add: frw_hyp np_power_pos del: np_power.simps)
    with less show ?thesis by (simp only: cf simp_thms)
  qed
qed

theorem frw_strictly_decreasing_witness:
  "(0::real) < 1 \<and> (0::real) \<le> 1 / 2 \<and> (1 / 2 :: real) \<le> 1 \<and> (- 1 :: real) < 3
   \<and> (0::real) < 1 + 1 / 2 * 1 * (- 1 - 0)
   \<and> frw (Fin (1 / 2)) (Fin 1) (Fin 1) [Fin (- 1), Fin 3] (Fin 0) =
       Inr [Fin (closed_form (1 / 2) 1 1 0 (- 1)), Fin (closed_form (1 / 2) 1 1 0 3)]
   \<and> closed_form (1 / 2) 1 1 0 3 < closed_form (1 / 2) 1 1 0 (- 1)
   \<and> closed_form (1 / 2) 1 1 0 (- 1) = 4
   \<and> closed_form (1 / 2) 1 1 0 3 = 4 / 25"
proof -
  note inst = frw_strictly_decreasing [where b = "1 / 2" and d = 1 and y = 1 and ?x1.0 = "- 1"
      and ?x2.0 = 3 and xi = 0]
  have h: "(0::real) < 1" "(0::real) \<le> 1 / 2" "(1 / 2 :: real) \<le> 1" "(- 1 :: real) < 3"
    "(0::real) < 1 + 1 / 2 * 1 * (- 1 - 0)"
    by simp_all
  have v: "closed_form (1 / 2) 1 1 0 (- 1) = 4" "closed_form (1 / 2) 1 1 0 3 = 4 / 25"
    by (simp_all add: closed_form_def power2_eq_square)
  from inst h v show ?thesis by blast
qed

section \<open>Cumulative evaluation\<close>

text \<open>
  Claim C4.  With finite parameters, \<open>Di \<noteq> 0\<close> and a finite array, \<^verbatim>\<open>cum\<close> with \<^verbatim>\<open>b = 0\<close> is
  \<open>(yi / Di) * (1 - exp (- Di * (x - xi)))\<close> at every entry; with \<open>0 < b < 1\<close> it is
  \<open>(yi / Di) / (1 - b) * (1 - (1 + b * Di * (x - xi)) ^ (1 - 1 / b))\<close>, the power being that
  of float64 arrays, and the real number with \<open>powr\<close> wherever the base is positive; with
  \<^verbatim>\<open>b = 1\<close> it is \<open>(yi / Di) * log (1 + Di * (x - xi))\<close>, the logarithm being numpy's, and the
  real number with \<open>ln\<close> wherever its argument is positive.  The log is left as it was.
\<close>

theorem cum_closed_forms:
  "d \<noteq> 0 \<longrightarrow>
     cum (Fin 0) (Fin d) (Fin y) (map Fin xs) (Fin xi) lg =
       (Inr (map (\<lambda>v. Fin (y / d * (1 - exp (- d * (v - xi))))) xs), lg)
   \<and> (0 < b \<and> b < 1 \<longrightarrow>
       cum (Fin b) (Fin d) (Fin y) (map Fin xs) (Fin xi) lg =
         (Inr (map (\<lambda>v. fmul (Fin (y / d / (1 - b)))
            (fsub (Fin 1) (np_power (Fin (1 + b * d * (v - xi))) (Fin (1 - 1 / b))))) xs), lg))
   \<and> (0 < b \<and> b < 1 \<and> list_all (\<lambda>v. 0 < 1 + b * d * (v - xi)) xs \<longrightarrow>
       cum (Fin b) (Fin d) (Fin y) (map Fin xs) (Fin xi) lg =
         (Inr (map (\<lambda>v. Fin (y / d / (1 - b) * (1 - (1 + b * d * (v - xi)) powr (1 - 1 / b)))) xs),
          lg))
   \<and> cum (Fin 1) (Fin d) (Fin y) (map Fin xs) (Fin xi) lg =
       (Inr (map (\<lambda>v. fmul (Fin (y / d)) (np_log (Fin (1 + d * (v - xi))))) xs), lg)
   \<and> (list_all (\<lambda>v. 0 < 1 + d * (v - xi)) xs \<longrightarrow>
       cum (Fin 1) (Fin d) (Fin y) (map Fin xs) (Fin xi) lg =
         (Inr (map (\<lambda>v. Fin (y / d * ln (1 + d * (v - xi)))) xs), lg))"
proof
  assume d: "d \<noteq> 0"
  have hyp: "cum (Fin b) (Fin d) (Fin y) (map Fin xs) (Fin xi) lg =
         (Inr (map (\<lambda>v. fmul (Fin (y / d / (1 - b)))
            (fsub (Fin 1) (np_power (Fin (1 + b * d * (v - xi))) (Fin (1 - 1 / b))))) xs), lg)"
    if "0 < b" "b < 1"
    using that d by (simp add: cum_hyp cumhyp_fin del: np_power.simps)
  have hyp_real: "map (\<lambda>v. fmul (Fin (y / d / (1 - b)))
            (fsub (Fin 1) (np_power (Fin (1 + b * d * (v - xi))) (Fin (1 - 1 / b))))) xs
       = map (\<lambda>v. Fin (y / d / (1 - b) * (1 - (1 + b * d * (v - xi)) powr (1 - 1 / b)))) xs"
    if "list_all (\<lambda>v. 0 < 1 + b * d * (v - xi)) xs"
    using that by (rule map_Fin_cong) (simp only: np_power_pos, simp)
  have har_real: "map (\<lambda>v. fmul (Fin (y / d)) (np_log (Fin (1 + d * (v - xi))))) xs
       = map (\<lambda>v. Fin (y / d * ln (1 + d * (v - xi)))) xs"
    if "list_all (\<lambda>v. 0 < 1 + d * (v - xi)) xs"
    using that by (rule map_Fin_cong) simp
  show "cum (Fin 0) (Fin d) (Fin y) (map Fin xs) (Fin xi) lg =
       (Inr (map (\<lambda>v. Fin (y / d * (1 - exp (- d * (v - xi))))) xs), lg)
   \<and> (0 < b \<and> b < 1 \<longrightarrow>
       cum (Fin b) (Fin d) (Fin y) (map Fin xs) (Fin xi) lg =
         (Inr (map (\<lambda>v. fmul (Fin (y / d / (1 - b)))
            (fsub (Fin 1) (np_power (Fin (1 + b * d * (v - xi))) (Fin (1 - 1 / b))))) xs), lg))
   \<and> (0 < b \<and> b < 1 \<and> list_all (\<lambda>v. 0 < 1 + b * d * (v - xi)) xs \<longrightarrow>
       cum (Fin b) (Fin d) (Fin y) (map Fin xs) (Fin xi) lg =
         (Inr (map (\<lambda>v. Fin (y / d / (1 - b) * (1 - (1 + b * d * (v - xi)) powr (1 - 1 / b)))) xs),
          lg))
   \<and> cum (Fin 1) (Fin d) (Fin y) (map Fin xs) (Fin xi) lg =
       (Inr (map (\<lambda>v. fmul (Fin (y / d)) (np_log (Fin (1 + d * (v - xi))))) xs), lg)
   \<and> (list_all (\<lambda>v. 0 < 1 + d * (v - xi)) xs \<longrightarrow>
       cum (Fin 1) (Fin d) (Fin y) (map Fin xs) (Fin xi) lg =
         (Inr (map (\<lambda>v. Fin (y / d * ln (1 + d * (v - xi)))) xs), lg))"
    using hyp hyp_real har_real d
    by (simp add: cum_0 cum_1 cumexp_fin cumhar_fin del: np_power.simps np_log.simps)
qed

theorem cum_closed_forms_witness:
  "(2::real) \<noteq> 0 \<and> (0::real) < 1 / 2 \<and> (1 / 2 :: real) < 1
   \<and> list_all (\<lambda>v. 0 < 1 + 1 / 2 * 2 * (v - 0)) [0, 3 :: real]
   \<and> cum (Fin (1 / 2)) (Fin 2) (Fin 1) (map Fin [0, 3]) (Fin 0) [] =
         (Inr (map (\<lambda>v. Fin (1 / 2 / (1 - 1 / 2) * (1 - (1 + 1 / 2 * 2 * (v - 0)) powr (1 - 1 / (1 / 2))))) [0, 3]),
          [])
   \<and> list_all (\<lambda>v. 0 < 1 + 2 * (v - 0)) [0, 3 :: real]
   \<and> cum (Fin 1) (Fin 2) (Fin 1) (map Fin [0, 3]) (Fin 0) [] =
         (Inr (map (\<lambda>v. Fin (1 / 2 * ln (1 + 2 * (v - 0)))) [0, 3]), [])
   \<and> cum (Fin 0) (Fin 2) (Fin 1) (map Fin [0, 3]) (Fin 0) [] =
       (Inr (map (\<lambda>v. Fin (1 / 2 * (1 - exp (- 2 * (v - 0))))) [0, 3]), [])"
proof -
  note inst = cum_closed_forms [where b = "1 / 2" and d = 2 and y = 1 and xs = "[0, 3]"
      and xi = 0 and lg = "[]"]
  have d: "(2::real) \<noteq> 0" by simp
  have b: "(0::real) < 1 / 2" "(1 / 2 :: real) < 1" by simp_all
  have pos: "list_all (\<lambda>v. 0 < 1 + 1 / 2 * 2 * (v - 0)) [0, 3 :: real]" by simp
  have pos1: "list_all (\<lambda>v. 0 < 1 + 2 * (v - 0)) [0, 3 :: real]" by simp
  from inst d b pos pos1 show ?thesis by blast
qed

text \<open>
  Cumulative evaluation with \<^verbatim>\<open>Di = 0\<close>, in each of the three modes: the call ends in a
  ZeroDivisionError, and the log is as empty afterwards as it was before.
\<close>

theorem cum_zero_decline_not_logged:
  "fst (cum (Fin 0) (Fin 0) (Fin 1) [Fin 1] (Fin 0) []) = Inl ZeroDivisionError
   \<and> snd (cum (Fin 0) (Fin 0) (Fin 1) [Fin 1] (Fin 0) []) = []
   \<and> snd (cum (Fin (1 / 2)) (Fin 0) (Fin 1) [Fin 1] (Fin 0) []) = []
   \<and> snd (cum (Fin 1) (Fin 0) (Fin 1) [Fin 1] (Fin 0) []) = []"
  by (simp add: cum_0 cum_1 cum_hyp cumexp_def)

text \<open>
  Claim C9, amended.  With \<^verbatim>\<open>Di = 0\<close> given as a Python float, \<^verbatim>\<open>cum\<close> raises
  ZeroDivisionError to its caller, whatever \<^verbatim>\<open>b\<close>, \<^verbatim>\<open>yi\<close>, \<^verbatim>\<open>x\<close> and \<^verbatim>\<open>xi\<close> are: the
  quotient \<^verbatim>\<open>yi/Di\<close> is the first thing each of \<^verbatim>\<open>cumexp\<close>, \<^verbatim>\<open>cumhyp\<close>, \<^verbatim>\<open>cumhar\<close> computes.
  No array is returned and nothing is written to the log.
\<close>

theorem cum_zero_decline_raises:
  "cum b (Fin 0) yi x xi lg = (Inl ZeroDivisionError, lg)"
proof (cases "b = Fin 0 \<or> b = Fin 1")
  case True
  then show ?thesis
    by (auto simp: cum_0 cum_1 cumexp_def cumhar_def)
next
  case False
  then show ?thesis
    by (simp add: cum_hyp cumhyp_def)
qed

section \<open>Goodness of fit\<close>

text \<open>
  A calculated value that is NaN where the observation is not.  With
  \<^verbatim>\<open>ycal = [nan, 1, 2]\<close> and \<^verbatim>\<open>yobs = [0, 1, 3]\<close> the code returns \<open>11 / 14\<close>: the first
  observation is in the mean \<open>4 / 3\<close> and in the denominator \<open>14 / 3\<close>.  Leaving the first
  index out of both sums and of the mean would give \<open>1 / 2\<close>.
\<close>

theorem rsquared_mean_over_all_observations:
  "rsquared [NaN, Fin 1, Fin 2] [Fin 0, Fin 1, Fin 3] = Inr (Fin (11 / 14))
   \<and> rsquared_spec [NaN, Fin 1, Fin 2] [Fin 0, Fin 1, Fin 3] = Fin (1 / 2)"
proof
  show "rsquared [NaN, Fin 1, Fin 2] [Fin 0, Fin 1, Fin 3] = Inr (Fin (11 / 14))"
    by (simp add: rsquared_def broadcast2_def np_nansum_def np_nanmean_def power2_eq_square
        fsub_def del: np_power.simps)
  show "rsquared_spec [NaN, Fin 1, Fin 2] [Fin 0, Fin 1, Fin 3] = Fin (1 / 2)"
    by (simp add: rsquared_spec_def kept_pairs_def power2_eq_square fsub_def
        del: np_power.simps)
qed

text \<open>
  Claim C5, amended.  For arrays of equal length whose entries are finite or NaN,
  \<^verbatim>\<open>rsquared\<close> returns \<open>1 - ss_res / ss_tot\<close> (the quotient and the difference being those of
  float64 scalars, so a zero \<open>ss_tot\<close> gives an infinity or NaN).  \<open>ss_res\<close> is the sum of
  \<open>(yobs - ycal)\<^sup>2\<close> over the indices at which neither array is NaN.  \<open>ss_tot\<close> is the sum of
  \<open>(yobs - mean)\<^sup>2\<close> over every index at which \<^verbatim>\<open>yobs\<close> is not NaN, and the mean is that of
  those same observations: a NaN in \<^verbatim>\<open>ycal\<close> alone takes an index out of the numerator only.
\<close>

theorem rsquared_sums:
  "length ycal = length yobs \<and> list_all no_inf ycal \<and> list_all no_inf yobs \<longrightarrow>
     rsquared ycal yobs = Inr (fsub (Fin 1) (fdiv (Fin (ss_res ycal yobs)) (Fin (ss_tot yobs))))"
proof
  assume a: "length ycal = length yobs \<and> list_all no_inf ycal \<and> list_all no_inf yobs"
  then have len: "length ycal = length yobs" and c: "list_all no_inf ycal"
    and ob: "list_all no_inf yobs" by simp_all
  have b: "broadcast2 fsub yobs ycal = Inr (map2 fsub yobs ycal)"
    using len by (simp add: broadcast2_def)
  have res: "np_nansum (map (\<lambda>v. np_power v (Fin 2)) (map2 fsub yobs ycal)) = Fin (ss_res ycal yobs)"
    using squares_of_differences [OF len c ob]
    by (simp add: np_nansum_finite ss_res_def del: np_power.simps)
  show "rsquared ycal yobs = Inr (fsub (Fin 1) (fdiv (Fin (ss_res ycal yobs)) (Fin (ss_tot yobs))))"
    by (simp only: rsquared_def b res sstot_finite [OF ob] Let_def sum.case)
qed

theorem rsquared_sums_witness:
  "length [NaN, Fin 1, Fin 2] = length [Fin 0, Fin 1, Fin 3]
   \<and> list_all no_inf [NaN, Fin 1, Fin 2] \<and> list_all no_inf [Fin 0, Fin 1, Fin 3]
   \<and> rsquared [NaN, Fin 1, Fin 2] [Fin 0, Fin 1, Fin 3] =
       Inr (fsub (Fin 1) (fdiv (Fin (ss_res [NaN, Fin 1, Fin 2] [Fin 0, Fin 1, Fin 3]))
                               (Fin (ss_tot [Fin 0, Fin 1, Fin 3]))))
   \<and> ss_res [NaN, Fin 1, Fin 2] [Fin 0, Fin 1, Fin 3] = 1
   \<and> ss_tot [Fin 0, Fin 1, Fin 3] = 14 / 3"
proof -
  note inst = rsquared_sums [where ycal = "[NaN, Fin 1, Fin 2]" and yobs = "[Fin 0, Fin 1, Fin 3]"]
  have h: "length [NaN, Fin 1, Fin 2] = length [Fin 0, Fin 1, Fin 3]"
    "list_all no_inf [NaN, Fin 1, Fin 2]" "list_all no_inf [Fin 0, Fin 1, Fin 3]"
    by (simp_all add: no_inf_def)
  have v: "ss_res [NaN, Fin 1, Fin 2] [Fin 0, Fin 1, Fin 3] = 1"
    "ss_tot [Fin 0, Fin 1, Fin 3] = 14 / 3"
    by (simp_all add: ss_res_def ss_tot_def power2_eq_square)
  from inst h v show ?thesis by blast
qed

section \<open>Cleaning before the regression\<close>

text \<open>
  An observation with an infinite rate passes both the filter of \<^verbatim>\<open>Hyperbolic.regress\<close> and
  \<^verbatim>\<open>nzero\<close>.
\<close>

theorem infinite_observations_kept:
  "regress_filter [Fin 0, Fin 1] [PInf, Fin 2] = Inr ([Fin 0, Fin 1], [PInf, Fin 2])
   \<and> nzero [Fin 0, Fin 1] [PInf, Fin 2] = Inr ([Fin 0, Fin 1], [PInf, Fin 2])"
  by (simp add: regress_filter_def nzero_def bool_index_def feq_def)

text \<open>
  Claim C6, amended.  For arrays of equal length, line 30 of \<^verbatim>\<open>Hyperbolic.regress\<close> returns
  arrays \<open>x'\<close>, \<open>y'\<close> of equal length in which no rate is zero; the pairs left are a
  subsequence of the pairs given, and every observation whose rate is neither NaN nor
  zero (an infinite rate among them) is still there, in its place.  \<^verbatim>\<open>nzero\<close> returns
  exactly the observations whose rate is neither NaN nor zero, \<open>x\<close> and \<open>y\<close> filtered alike,
  so infinite rates stay.
\<close>

theorem zero_observations_dropped:
  "length x = length y \<longrightarrow>
     (\<exists>x' y'. regress_filter x y = Inr (x', y') \<and> length x' = length y'
        \<and> Fin 0 \<notin> set y'
        \<and> subseq (zip x' y') (zip x y)
        \<and> filter usable (zip x' y') = filter usable (zip x y))
   \<and> (\<exists>x' y'. nzero x y = Inr (x', y') \<and> length x' = length y'
        \<and> Fin 0 \<notin> set y' \<and> NaN \<notin> set y'
        \<and> zip x' y' = filter usable (zip x y))"
proof
  assume len: "length x = length y"
  let ?P = "\<lambda>v. \<not> feq v (Fin 0)"
  let ?Q = "\<lambda>v. v \<noteq> NaN \<and> \<not> feq v (Fin 0)"
  let ?x1 = "map fst (filter (\<lambda>(u, v). ?P v) (zip x y))"
  let ?x2 = "map fst (filter (\<lambda>(u, v). ?Q v) (zip x y))"
  have r: "regress_filter x y = Inr (?x1, filter ?P y)"
    using len by (simp add: regress_filter_def bool_index_eq bool_index_self)
  have z1: "zip ?x1 (filter ?P y) = filter (\<lambda>(u, v). ?P v) (zip x y)"
    using len by (rule zip_filtered)
  have a: "length ?x1 = length (filter ?P y)" using len by (rule length_filtered)
  have b: "Fin 0 \<notin> set (filter ?P y)" by (simp add: feq_def)
  have c: "subseq (zip ?x1 (filter ?P y)) (zip x y)" by (simp add: z1)
  have d: "filter usable (zip ?x1 (filter ?P y)) = filter usable (zip x y)"
    by (simp only: z1 filter_usable_nonzero)
  have n: "nzero x y = Inr (?x2, filter ?Q y)"
    using len by (simp add: nzero_def bool_index_eq bool_index_self)
  have z2: "zip ?x2 (filter ?Q y) = filter (\<lambda>(u, v). ?Q v) (zip x y)"
    using len by (rule zip_filtered)
  have q: "(\<lambda>(u, v). ?Q v) = usable"
    by (auto simp: usable_def feq_def fun_eq_iff)
  have a2: "length ?x2 = length (filter ?Q y)" using len by (rule length_filtered)
  have b2: "Fin 0 \<notin> set (filter ?Q y)" "NaN \<notin> set (filter ?Q y)" by (simp_all add: feq_def)
  have d2: "zip ?x2 (filter ?Q y) = filter usable (zip x y)"
    using z2 q by simp
  show "(\<exists>x' y'. regress_filter x y = Inr (x', y') \<and> length x' = length y'
        \<and> Fin 0 \<notin> set y'
        \<and> subseq (zip x' y') (zip x y)
        \<and> filter usable (zip x' y') = filter usable (zip x y))
   \<and> (\<exists>x' y'. nzero x y = Inr (x', y') \<and> length x' = length y'
        \<and> Fin 0 \<notin> set y' \<and> NaN \<notin> set y'
        \<and> zip x' y' = filter usable (zip x y))"
    using r a b c d n a2 b2 d2 by blast
qed

theorem zero_observations_dropped_witness:
  "length [Fin 0, Fin 1, Fin 2] = length [Fin 0, PInf, Fin 3]
   \<and> (\<exists>x' y'. regress_filter [Fin 0, Fin 1, Fin 2] [Fin 0, PInf, Fin 3] = Inr (x', y')
        \<and> length x' = length y'
        \<and> Fin 0 \<notin> set y'
        \<and> subseq (zip x' y') (zip [Fin 0, Fin 1, Fin 2] [Fin 0, PInf, Fin 3])
        \<and> filter usable (zip x' y') = filter usable (zip [Fin 0, Fin 1, Fin 2] [Fin 0, PInf, Fin 3]))
   \<and> (\<exists>x' y'. nzero [Fin 0, Fin 1, Fin 2] [Fin 0, PInf, Fin 3] = Inr (x', y')
        \<and> length x' = length y'
        \<and> Fin 0 \<notin> set y' \<and> NaN \<notin> set y'
        \<and> zip x' y' = filter usable (zip [Fin 0, Fin 1, Fin 2] [Fin 0, PInf, Fin 3]))"
proof -
  note inst = zero_observations_dropped [where x = "[Fin 0, Fin 1, Fin 2]"
      and y = "[Fin 0, PInf, Fin 3]"]
  have len: "length [Fin 0, Fin 1, Fin 2] = length [Fin 0, PInf, Fin 3]" by simp
  from inst len show ?thesis by blast
qed

section \<open>Fitting\<close>

text \<open>
  Claim C2.  The hyperbolic fit is to return \<open>Di = slope / (intercept * b)\<close> and
  \<open>yi = intercept ^ (- 1 / b)\<close>.  \<^verbatim>\<open>Hyperbolic.regress\<close> never returns a result: whatever its
  collaborators do and whatever the data are, the call ends in an exception.  When the
  least-squares step succeeded and the exponent is 0.5, line 34 builds a tuple of three
  and the unpacking into \<^verbatim>\<open>Di,yi\<close> raises ValueError: so it is for the noiseless data
  \<open>x = [0, 1, 2]\<close>, \<open>y = [4, 1, 4 / 9]\<close> of the curve with \<open>yi = 4\<close>, \<open>Di = 2\<close>, whatever
  \<^verbatim>\<open>linregress\<close> returned, with \<^verbatim>\<open>xshift\<close> doing what \<^verbatim>\<open>Arps.shift\<close> does and the base class
  passing the regression on as \<^verbatim>\<open>Arps.regress\<close> does.
\<close>

theorem Hyperbolic_regress_never_returns:
  "fst (Hyperbolic_regress xshift super_regress model_rvalue xp x yobs xi lg) \<noteq> Inr r
   \<and> back_transform (Some l) (Fin (1 / 2)) = Inl ValueError
   \<and> Hyperbolic_regress shift
        (\<lambda>u v g. case regress (\<lambda>u v. Inr l) u v g of (lin, g') \<Rightarrow> (Inr lin, g'))
        model_rvalue (Fin (1 / 2)) [Fin 0, Fin 1, Fin 2] [Fin 4, Fin 1, Fin (4 / 9)]
        (Some (Fin 0)) lg
       = (Inl ValueError, lg)"
proof -
  have "fst (Hyperbolic_regress xshift super_regress model_rvalue xp x yobs xi lg) \<noteq> Inr r"
    using back_transform_raises
    by (auto simp: Hyperbolic_regress_def split: sum.splits prod.splits)
  moreover have "Hyperbolic_regress shift
        (\<lambda>u v g. case regress (\<lambda>u v. Inr l) u v g of (lin, g') \<Rightarrow> (Inr lin, g'))
        model_rvalue (Fin (1 / 2)) [Fin 0, Fin 1, Fin 2] [Fin 4, Fin 1, Fin (4 / 9)]
        (Some (Fin 0)) lg
       = (Inl ValueError, lg)"
    by (simp add: Hyperbolic_regress_def shift_def bool_index_def regress_filter_def feq_def
        regress_def back_transform_Some del: np_power.simps)
  ultimately show ?thesis by (simp add: back_transform_Some)
qed

text \<open>
  Claim C3.  A fit whose least-squares step fails is to log the failure and return an
  absent linear part with the sentinel \<open>(0, 0)\<close>.  \<^verbatim>\<open>Arps.regress\<close> alone does log and give
  \<^verbatim>\<open>None\<close>.  The fitting operations raise instead: \<^verbatim>\<open>inv\<close>, \<^verbatim>\<open>invexp\<close>, \<^verbatim>\<open>invhyp\<close> and \<^verbatim>\<open>invhar\<close>
  end in NameError on every input, whatever the rest of their bodies would do; and
  \<^verbatim>\<open>Hyperbolic.regress\<close> on empty arrays, with a \<^verbatim>\<open>linregress\<close> that raises ValueError and a
  base class that logs it as \<^verbatim>\<open>Arps.regress\<close> does, ends in AttributeError after the log
  entry is written.
\<close>

theorem fit_raises_when_regression_fails:
  "inv rest b x y xi = Inl NameError
   \<and> invexp rest x y xi = Inl NameError
   \<and> invhyp rest x y xi b = Inl NameError
   \<and> invhar rest x y xi = Inl NameError
   \<and> regress (\<lambda>u v. Inl e) x y lg = (None, lg @ [ErrorExn e])
   \<and> back_transform None xp = Inl AttributeError
   \<and> Hyperbolic_regress shift
        (\<lambda>u v g. case regress (\<lambda>u v. Inl ValueError) u v g of (lin, g') \<Rightarrow> (Inr lin, g'))
        model_rvalue (Fin (1 / 2)) [] [] (Some (Fin 0)) lg
       = (Inl AttributeError, lg @ [ErrorExn ValueError])"
  by (simp add: inv_raises inv_static_raises regress_def back_transform_None
      Hyperbolic_regress_def shift_def bool_index_def regress_filter_def)

section \<open>Group forecasts: the loop\<close>

text \<open>
  Claim C10.  \<^verbatim>\<open>mrun\<close> on the empty dictionary, once the dates are built, ends in
  UnboundLocalError: \<^verbatim>\<open>frame\<close> was never bound, and no empty table is returned.  On a
  dictionary that is not empty the per-item tables are to be put one after the other in
  insertion order.  That never happens: no call on a dictionary with a first item returns
  a table, and when \<^verbatim>\<open>dates.days\<close> returns for the first item the call ends in NameError,
  because \<^verbatim>\<open>Curve\<close> is no name of the module \<^verbatim>\<open>_analysis\<close>.
\<close>

theorem mrun_never_concatenates:
  "mrun (Inr d) days curve_frame [] = Inl UnboundLocalError
   \<and> mrun dates days curve_frame ((key, model) # rest) \<noteq> Inr table
   \<and> mrun (Inr d) (\<lambda>d m. Inr dy) curve_frame ((key, model) # rest) = Inl NameError"
proof -
  have "mrun (Inr d) days curve_frame [] = Inl UnboundLocalError"
    by (simp add: mrun_def)
  moreover have "mrun dates days curve_frame ((key, model) # rest) \<noteq> Inr table"
    by (simp add: mrun_def mrun_loop_first_item del: mrun_loop.simps split: sum.splits)
  moreover have "mrun (Inr d) (\<lambda>d m. Inr dy) curve_frame ((key, model) # rest) = Inl NameError"
    by (simp add: mrun_def mrun_loop_first_item del: mrun_loop.simps)
  ultimately show ?thesis by simp
qed

end
